theory Spec2Isabelle
  imports Complex_Main
begin

section \<open>MuseumLangAPI: a shallow embedding of \<open>src/main.py\<close>\<close>

text \<open>
  The program is a FastAPI application with three handlers (\<open>root\<close>,
  \<open>identify_language\<close>, \<open>health_check\<close>), a model loader (\<open>load_model\<close>) and a
  start-up hook (\<open>lifespan\<close>). Everything outside the source file is an input of
  the embedding: the unpickled classifier object, the file system, the unpickler and
  the clock.
\<close>

subsection \<open>Python values\<close>

text \<open>
  A Python \<open>str\<close> is a sequence of Unicode code points, so a text is a list of code
  points: \<open>text[:100]\<close> and \<open>strip()\<close> work on code points, not on bytes. The
  literals of the source are written with \<open>ascii\<close>, the non-ASCII letters of the Italian
  messages by their code point.
\<close>

type_synonym pystr = "nat list"

definition ascii :: "string \<Rightarrow> pystr" where
  "ascii s = map of_char s"

text \<open>
  A Python \<open>float\<close> is a double: a finite binary fraction, hence a rational number,
  held here exactly, or NaN, or one of the two infinities. \<open>float_0_9\<close> is the double
  that the literal \<open>0.9\<close> denotes.
\<close>

datatype pyfloat = Finite rat | NaN | PosInf | NegInf

definition float_0_9 :: pyfloat where
  "float_0_9 = Finite (8106479329266893 / 9007199254740992)"

text \<open>
  \<open>x > y\<close> on floats: every comparison with NaN is false.
\<close>

fun py_gt :: "pyfloat \<Rightarrow> pyfloat \<Rightarrow> bool" where
  "py_gt (Finite a) (Finite b) = (b < a)"
| "py_gt (Finite a) NegInf = True"
| "py_gt PosInf (Finite b) = True"
| "py_gt PosInf NegInf = True"
| "py_gt _ _ = False"

text \<open>
  \<open>round(x, ndigits)\<close> on a finite float rounds the exact value of \<open>x\<close> to
  \<open>ndigits\<close> decimals, ties to even, and returns the double nearest to that decimal,
  which \<open>repr\<close> and the JSON encoder print as that decimal again; \<open>py_round\<close> returns
  the decimal. NaN and the infinities are returned as they are.
\<close>

definition round_half_even :: "rat \<Rightarrow> int" where
  "round_half_even y =
     (let f = \<lfloor>y\<rfloor>; d = y - of_int f in
      if d < 1 / 2 then f
      else if 1 / 2 < d then f + 1
      else if even f then f else f + 1)"

fun py_round :: "pyfloat \<Rightarrow> nat \<Rightarrow> pyfloat" where
  "py_round (Finite x) ndigits =
     Finite (of_int (round_half_even (x * 10 ^ ndigits)) / 10 ^ ndigits)"
| "py_round NaN ndigits = NaN"
| "py_round PosInf ndigits = PosInf"
| "py_round NegInf ndigits = NegInf"

text \<open>The dictionaries the handlers return: keys are ASCII literals of the source.\<close>

datatype pyval = Str pystr | Float pyfloat | Dict "(string \<times> pyval) list"

fun dict_get :: "pyval \<Rightarrow> string \<Rightarrow> pyval option" where
  "dict_get (Dict kvs) k = map_of kvs k"
| "dict_get _ k = None"

subsection \<open>Exceptions\<close>

text \<open>
  An exception carries the classes it is an instance of (the method resolution order
  of its class, the class itself first) and \<open>str(e)\<close>. \<open>UserClass\<close> names a class
  defined outside the builtins; a class of a library may derive from several builtin
  ones, as scikit-learn's \<open>NotFittedError\<close> derives from \<open>ValueError\<close> and
  \<open>AttributeError\<close>.
\<close>

datatype exc_class =
    BaseException | Exception | AttributeError | RuntimeError | NotImplementedError
  | LookupError | IndexError | ValueError | TypeError
  | OSError | FileNotFoundError | IsADirectoryError
  | KeyboardInterrupt | SystemExit | GeneratorExit | UserClass string

datatype pyexn = PyExn (exc_mro: "exc_class list") (exc_str: pystr)

text \<open>\<open>isinstance(e, c)\<close>, which an \<open>except c\<close> clause tests: subclasses match.\<close>

definition isinstance :: "pyexn \<Rightarrow> exc_class \<Rightarrow> bool" where
  "isinstance e c = (c \<in> set (exc_mro e))"

text \<open>The resolution order of the builtin classes; a new class derives from \<open>Exception\<close>.\<close>

fun mro :: "exc_class \<Rightarrow> exc_class list" where
  "mro BaseException = [BaseException]"
| "mro Exception = [Exception, BaseException]"
| "mro AttributeError = [AttributeError, Exception, BaseException]"
| "mro RuntimeError = [RuntimeError, Exception, BaseException]"
| "mro NotImplementedError = [NotImplementedError, RuntimeError, Exception, BaseException]"
| "mro LookupError = [LookupError, Exception, BaseException]"
| "mro IndexError = [IndexError, LookupError, Exception, BaseException]"
| "mro ValueError = [ValueError, Exception, BaseException]"
| "mro TypeError = [TypeError, Exception, BaseException]"
| "mro OSError = [OSError, Exception, BaseException]"
| "mro FileNotFoundError = [FileNotFoundError, OSError, Exception, BaseException]"
| "mro IsADirectoryError = [IsADirectoryError, OSError, Exception, BaseException]"
| "mro KeyboardInterrupt = [KeyboardInterrupt, BaseException]"
| "mro SystemExit = [SystemExit, BaseException]"
| "mro GeneratorExit = [GeneratorExit, BaseException]"
| "mro (UserClass name) = [UserClass name, Exception, BaseException]"

text \<open>\<open>c(msg)\<close>: a new exception of class \<open>c\<close>.\<close>

definition new_exception :: "exc_class \<Rightarrow> pystr \<Rightarrow> pyexn" where
  "new_exception c msg = PyExn (mro c) msg"

text \<open>
  What leaves a handler other than its return value: an \<open>HTTPException\<close> the handler
  raised itself, or an exception it did not catch.
\<close>

datatype http_error = HTTPException (status_code: nat) (detail: pystr) | Unhandled pyexn

definition http_status :: "http_error + 'a \<Rightarrow> nat option" where
  "http_status r =
     (case r of Inr _ \<Rightarrow> Some 200
      | Inl (HTTPException c _) \<Rightarrow> Some c
      | Inl (Unhandled _) \<Rightarrow> None)"

subsection \<open>Sequence operations that raise\<close>

definition py_getitem0 :: "'a list \<Rightarrow> pyexn + 'a" where
  "py_getitem0 xs =
     (case xs of [] \<Rightarrow> Inl (new_exception IndexError (ascii ''list index out of range''))
      | x # _ \<Rightarrow> Inr x)"

text \<open>
  \<open>max(xs)\<close> keeps the first item and replaces it by each later item that is greater,
  so a NaN in first place stays and a later NaN is passed over. The message on an
  empty sequence is that of CPython 3.11; no property depends on its wording.
\<close>

definition py_max :: "pyfloat list \<Rightarrow> pyexn + pyfloat" where
  "py_max xs =
     (case xs of [] \<Rightarrow> Inl (new_exception ValueError (ascii ''max() arg is an empty sequence''))
      | x # rest \<Rightarrow> Inr (fold (\<lambda>item best. if py_gt item best then item else best) rest x))"

text \<open>\<open>str.isspace\<close> on one code point, and \<open>str.strip()\<close> without arguments.\<close>

definition py_isspace :: "nat \<Rightarrow> bool" where
  "py_isspace c =
     ((9 \<le> c \<and> c \<le> 13) \<or> (28 \<le> c \<and> c \<le> 32) \<or> c = 133 \<or> c = 160 \<or> c = 5760
      \<or> (8192 \<le> c \<and> c \<le> 8202) \<or> c = 8232 \<or> c = 8233 \<or> c = 8239 \<or> c = 8287
      \<or> c = 12288)"

definition py_strip :: "pystr \<Rightarrow> pystr" where
  "py_strip s = rev (dropWhile py_isspace (rev (dropWhile py_isspace s)))"

subsection \<open>The classifier and the state of the process\<close>

text \<open>
  The unpickled object: \<open>predict\<close> maps a sequence of texts to a sequence of labels,
  \<open>predict_proba\<close> (an attribute the object may lack) to a sequence of rows of
  probabilities. Either may raise.
\<close>

record classifier =
  predict :: "pystr list \<Rightarrow> pyexn + pystr list"
  predict_proba :: "(pystr list \<Rightarrow> pyexn + pyfloat list list) option"

datatype log_level = INFO | WARNING | ERROR

text \<open>
  A log record is its level and its message. \<open>Risposta\<close> stands for the message
  \<open>f"Risposta: {response}"\<close>, whose \<open>repr\<close> of the dictionary is left unformatted.
\<close>

datatype log_message = Text pystr | Risposta pyval

datatype invocation = Predict "pystr list" | Predict_proba "pystr list"

text \<open>
  The state: the global \<open>model\<close> (\<open>None\<close> until \<open>lifespan\<close> has run), the records
  written to \<open>logger\<close>, and the calls made on the classifier so far.
\<close>

record app_state =
  model :: "classifier option"
  logger :: "(log_level \<times> log_message) list"
  invocations :: "invocation list"

definition logging :: "log_level \<Rightarrow> log_message \<Rightarrow> app_state \<Rightarrow> app_state" where
  "logging lvl msg s = s\<lparr>logger := logger s @ [(lvl, msg)]\<rparr>"

text \<open>
  \<open>model.predict(xs)\<close> and \<open>model.predict_proba(xs)\<close>: the attribute lookup raises
  \<open>AttributeError\<close> on \<open>None\<close> or on an object without the method; otherwise the call
  is made and recorded.
\<close>

definition call_predict :: "app_state \<Rightarrow> pystr list \<Rightarrow> (pyexn + pystr list) \<times> app_state" where
  "call_predict s xs =
     (case model s of
        None \<Rightarrow>
          (Inl (new_exception AttributeError (ascii '''NoneType' object has no attribute 'predict'' @ [39])), s)
      | Some clf \<Rightarrow> (predict clf xs, s\<lparr>invocations := invocations s @ [Predict xs]\<rparr>))"

definition call_predict_proba ::
  "app_state \<Rightarrow> pystr list \<Rightarrow> (pyexn + pyfloat list list) \<times> app_state" where
  "call_predict_proba s xs =
     (case model s of
        None \<Rightarrow>
          (Inl (new_exception AttributeError
                  (ascii '''NoneType' object has no attribute 'predict_proba'' @ [39])), s)
      | Some clf \<Rightarrow>
          (case predict_proba clf of
             None \<Rightarrow> (Inl (new_exception AttributeError (ascii ''object has no attribute 'predict_proba'' @ [39])), s)
           | Some f \<Rightarrow> (f xs, s\<lparr>invocations := invocations s @ [Predict_proba xs]\<rparr>)))"

subsection \<open>\<open>identify_language\<close>\<close>

text \<open>
  Lines 112 to 117: \<open>confidence = 0.9\<close>, then the inner \<open>try\<close>, whose handler catches
  \<open>AttributeError\<close> and \<open>NotImplementedError\<close> only and keeps the \<open>0.9\<close>.
\<close>

definition confidence_block :: "app_state \<Rightarrow> pystr list \<Rightarrow> (pyexn + pyfloat) \<times> app_state" where
  "confidence_block s text_to_predict =
     (let confidence = float_0_9 in
      case call_predict_proba s text_to_predict of
        (r, s1) \<Rightarrow>
          (case (case r of
                   Inl e \<Rightarrow> Inl e
                 | Inr probabilities \<Rightarrow>
                     (case py_getitem0 probabilities of
                        Inl e \<Rightarrow> Inl e
                      | Inr row \<Rightarrow> py_max row)) of
             Inr c \<Rightarrow> (Inr c, s1)
           | Inl e \<Rightarrow>
               if isinstance e AttributeError \<or> isinstance e NotImplementedError
               then (Inr confidence, s1)
               else (Inl e, s1)))"

text \<open>Lines 108 to 126: the body of the outer \<open>try\<close>.\<close>

definition try_body :: "app_state \<Rightarrow> pystr \<Rightarrow> (pyexn + pyval) \<times> app_state" where
  "try_body s text =
     (let text_to_predict = [text] in
      case call_predict s text_to_predict of
        (Inl e, s1) \<Rightarrow> (Inl e, s1)
      | (Inr predicted_language, s1) \<Rightarrow>
          (case confidence_block s1 text_to_predict of
             (Inl e, s2) \<Rightarrow> (Inl e, s2)
           | (Inr confidence, s2) \<Rightarrow>
               (case py_getitem0 predicted_language of
                  Inl e \<Rightarrow> (Inl e, s2)
                | Inr code \<Rightarrow>
                    (let response = Dict [(''language_code'', Str code),
                                          (''confidence'', Float (py_round confidence 2))]
                     in (Inr response, logging INFO (Risposta response) s2)))))"

definition empty_text_msg :: pystr where
  "empty_text_msg = ascii ''Il testo non pu'' @ [242] @ ascii '' essere vuoto''"

definition prediction_error_prefix :: pystr where
  "prediction_error_prefix =
     ascii ''Errore durante l'identificazione della lingua: ''"

text \<open>
  The handler: the request is logged, a blank text raises the 400 before the \<open>try\<close>,
  and \<open>except Exception\<close> turns what the body raised into the 500; an exception that
  is not an instance of \<open>Exception\<close> passes through.
\<close>

definition identify_language :: "app_state \<Rightarrow> pystr \<Rightarrow> (http_error + pyval) \<times> app_state" where
  "identify_language s text =
     (let s0 = logging INFO (Text (ascii ''Richiesta ricevuta: '' @ take 100 text @ ascii ''...'')) s in
      if text = [] \<or> py_strip text = [] then
        (let error_msg = empty_text_msg
         in (Inl (HTTPException 400 error_msg), logging WARNING (Text error_msg) s0))
      else
        (case try_body s0 text of
           (Inr response, s1) \<Rightarrow> (Inr response, s1)
         | (Inl e, s1) \<Rightarrow>
             if isinstance e Exception then
               (let error_msg = prediction_error_prefix @ exc_str e
                in (Inl (HTTPException 500 error_msg), logging ERROR (Text error_msg) s1))
             else (Inl (Unhandled e), s1)))"

subsection \<open>\<open>root\<close> and \<open>health_check\<close>\<close>

definition root :: "app_state \<Rightarrow> (http_error + pyval) \<times> app_state" where
  "root s =
     (Inr (Dict [(''message'', Str (ascii ''Benvenuto all'API di MuseumLangID'')),
                 (''version'', Str (ascii ''1.0.0'')),
                 (''endpoints'',
                    Dict [(''identify_language'', Str (ascii ''/identify-language'')),
                          (''health'', Str (ascii ''/health'')),
                          (''docs'', Str (ascii ''/docs''))])]), s)"

text \<open>
  \<open>datetime.now()\<close> is a naive local time; the clock is an argument of the handler.
  A \<open>datetime\<close> object always satisfies \<open>valid_datetime\<close>.
\<close>

record datetime =
  year :: nat
  month :: nat
  day :: nat
  hour :: nat
  minute :: nat
  second :: nat
  microsecond :: nat

definition is_leap :: "nat \<Rightarrow> bool" where
  "is_leap y = (y mod 4 = 0 \<and> (y mod 100 \<noteq> 0 \<or> y mod 400 = 0))"

definition days_in_month :: "nat \<Rightarrow> nat \<Rightarrow> nat" where
  "days_in_month y m =
     (if m = 2 then (if is_leap y then 29 else 28)
      else if m = 4 \<or> m = 6 \<or> m = 9 \<or> m = 11 then 30 else 31)"

definition valid_datetime :: "datetime \<Rightarrow> bool" where
  "valid_datetime d =
     (1 \<le> year d \<and> year d \<le> 9999 \<and> 1 \<le> month d \<and> month d \<le> 12
      \<and> 1 \<le> day d \<and> day d \<le> days_in_month (year d) (month d)
      \<and> hour d < 24 \<and> minute d < 60 \<and> second d < 60 \<and> microsecond d < 1000000)"

text \<open>The decimal digits of a number, and the format \<open>%0<width>d\<close>.\<close>

fun dec_digits :: "nat \<Rightarrow> pystr" where
  "dec_digits n = (if n < 10 then [48 + n] else dec_digits (n div 10) @ [48 + n mod 10])"

definition zero_pad :: "nat \<Rightarrow> nat \<Rightarrow> pystr" where
  "zero_pad width n =
     (let ds = dec_digits n in replicate (width - length ds) 48 @ ds)"

text \<open>
  \<open>datetime.isoformat()\<close> of a naive time: \<open>YYYY-MM-DDTHH:MM:SS\<close>, followed by
  \<open>.ffffff\<close> when the microsecond is not zero.
\<close>

definition isoformat :: "datetime \<Rightarrow> pystr" where
  "isoformat d =
     zero_pad 4 (year d) @ ascii ''-'' @ zero_pad 2 (month d) @ ascii ''-'' @ zero_pad 2 (day d)
     @ ascii ''T'' @ zero_pad 2 (hour d) @ ascii '':'' @ zero_pad 2 (minute d)
     @ ascii '':'' @ zero_pad 2 (second d)
     @ (if microsecond d \<noteq> 0 then ascii ''.'' @ zero_pad 6 (microsecond d) else [])"

definition health_check :: "app_state \<Rightarrow> datetime \<Rightarrow> (http_error + pyval) \<times> app_state" where
  "health_check s now =
     (Inr (Dict [(''status'', Str (ascii ''healthy'')),
                 (''timestamp'', Str (isoformat now))]), s)"

text \<open>
  The reading of the specification's "parses as ISO-8601", not part of the source: a
  reader of the extended format \<open>YYYY-MM-DDTHH:MM:SS\<close> with an optional fraction of six
  digits, which accepts only the times of the calendar.
\<close>

fun digits_value :: "nat \<Rightarrow> pystr \<Rightarrow> nat option" where
  "digits_value acc [] = Some acc"
| "digits_value acc (c # cs) =
     (if 48 \<le> c \<and> c \<le> 57 then digits_value (10 * acc + (c - 48)) cs else None)"

definition parse_iso8601 :: "pystr \<Rightarrow> datetime option" where
  "parse_iso8601 s =
     (if (length s = 19 \<or> (length s = 26 \<and> s ! 19 = 46))
         \<and> s ! 4 = 45 \<and> s ! 7 = 45 \<and> s ! 10 = 84 \<and> s ! 13 = 58 \<and> s ! 16 = 58
      then
        (case (digits_value 0 (take 4 s), digits_value 0 (take 2 (drop 5 s)),
               digits_value 0 (take 2 (drop 8 s)), digits_value 0 (take 2 (drop 11 s)),
               digits_value 0 (take 2 (drop 14 s)), digits_value 0 (take 2 (drop 17 s)),
               digits_value 0 (drop 20 s)) of
           (Some y, Some mo, Some d, Some h, Some mi, Some sec, Some us) \<Rightarrow>
             (let dt = \<lparr>year = y, month = mo, day = d, hour = h, minute = mi,
                        second = sec, microsecond = us\<rparr>
              in if valid_datetime dt then Some dt else None)
         | _ \<Rightarrow> None)
      else None)"

subsection \<open>\<open>load_model\<close> and \<open>lifespan\<close>\<close>

text \<open>
  What \<open>load_model\<close> reads from outside the program: the constant \<open>MODEL_PATH\<close>, the
  file system (\<open>os.path.exists\<close>, \<open>open\<close>) and \<open>pickle.load\<close>.
\<close>

datatype fs_entry = RegularFile "nat list" | Directory

record environment =
  MODEL_PATH :: pystr
  filesystem :: "pystr \<Rightarrow> fs_entry option"
  pickle_load :: "nat list \<Rightarrow> pyexn + classifier"

text \<open>Lines 40 to 48: the body of the \<open>try\<close> of \<open>load_model\<close>.\<close>

definition load_model_body :: "environment \<Rightarrow> app_state \<Rightarrow> (pyexn + classifier) \<times> app_state" where
  "load_model_body env s =
     (case filesystem env (MODEL_PATH env) of
        None \<Rightarrow>
          (let error_msg = ascii ''File del modello non trovato in: '' @ MODEL_PATH env
           in (Inl (new_exception FileNotFoundError error_msg), logging ERROR (Text error_msg) s))
      | Some Directory \<Rightarrow>
          (Inl (new_exception IsADirectoryError
                  (ascii ''[Errno 21] Is a directory: '' @ [39] @ MODEL_PATH env @ [39])), s)
      | Some (RegularFile model_file) \<Rightarrow>
          (case pickle_load env model_file of
             Inl e \<Rightarrow> (Inl e, s)
           | Inr loaded_model \<Rightarrow>
               (Inr loaded_model, logging INFO (Text (ascii ''Modello caricato con successo'')) s)))"

definition load_model :: "environment \<Rightarrow> app_state \<Rightarrow> (pyexn + classifier) \<times> app_state" where
  "load_model env s =
     (case load_model_body env s of
        (Inr loaded_model, s1) \<Rightarrow> (Inr loaded_model, s1)
      | (Inl e, s1) \<Rightarrow>
          if isinstance e Exception then
            (Inl (new_exception RuntimeError (ascii ''Impossibile caricare il modello: '' @ exc_str e)),
             logging ERROR (Text (ascii ''Errore durante il caricamento del modello: '' @ exc_str e)) s1)
          else (Inl e, s1))"

text \<open>\<open>lifespan\<close> up to its \<open>yield\<close>: an exception of \<open>load_model\<close> is not caught.\<close>

definition lifespan :: "environment \<Rightarrow> app_state \<Rightarrow> (pyexn + unit) \<times> app_state" where
  "lifespan env s =
     (case load_model env s of
        (Inl e, s1) \<Rightarrow> (Inl e, s1)
      | (Inr loaded_model, s1) \<Rightarrow>
          (Inr (), logging INFO (Text (ascii ''API inizializzata e pronta''))
                     (s1\<lparr>model := Some loaded_model\<rparr>)))"

subsection \<open>The state at import, and concrete collaborators\<close>

text \<open>Line 35: the module is imported with \<open>model = None\<close> and nothing logged.\<close>

definition initial_state :: app_state where
  "initial_state = \<lparr>model = None, logger = [], invocations = []\<rparr>"

definition serving :: "classifier \<Rightarrow> app_state" where
  "serving clf = initial_state\<lparr>model := Some clf\<rparr>"

text \<open>The example of \<open>LanguageRequest\<close> (line 72), and a text of blanks: space, tab, U+00A0.\<close>

definition example_text :: pystr where
  "example_text = ascii ''Questo '' @ [232] @ ascii '' un esempio di testo.''"

definition blank_text :: pystr where
  "blank_text = [32, 9, 160]"

text \<open>
  Classifiers used as concrete inputs. \<open>float_0_98\<close> and \<open>float_0_01\<close> are the doubles
  that \<open>0.98\<close> and \<open>0.01\<close> denote.
\<close>

definition float_0_98 :: pyfloat where
  "float_0_98 = Finite (2206763817411543 / 2251799813685248)"

definition float_0_01 :: pyfloat where
  "float_0_01 = Finite (5764607523034235 / 576460752303423488)"

definition it_classifier :: classifier where
  "it_classifier =
     \<lparr>predict = (\<lambda>xs. Inr (map (\<lambda>x. ascii ''IT'') xs)),
      predict_proba = Some (\<lambda>xs. Inr (map (\<lambda>x. [float_0_01, float_0_98, float_0_01]) xs))\<rparr>"

definition point_classifier :: classifier where
  "point_classifier =
     \<lparr>predict = (\<lambda>xs. Inr (map (\<lambda>x. ascii ''IT'') xs)), predict_proba = None\<rparr>"

definition failing_classifier :: classifier where
  "failing_classifier =
     \<lparr>predict = (\<lambda>xs. Inl (new_exception ValueError (ascii ''empty vocabulary''))),
      predict_proba = None\<rparr>"


definition unimplemented_classifier :: classifier where
  "unimplemented_classifier =
     \<lparr>predict = (\<lambda>xs. Inr (map (\<lambda>x. ascii ''IT'') xs)),
      predict_proba = Some (\<lambda>xs. Inl (new_exception NotImplementedError []))\<rparr>"

text \<open>
  A pipeline that is not fitted: its \<open>predict_proba\<close> raises scikit-learn's
  \<open>NotFittedError\<close>, a subclass of \<open>ValueError\<close> and of \<open>AttributeError\<close>.
\<close>

definition NotFittedError :: "pystr \<Rightarrow> pyexn" where
  "NotFittedError msg =
     PyExn [UserClass ''NotFittedError'', ValueError, AttributeError, Exception, BaseException] msg"

definition unfitted_classifier :: classifier where
  "unfitted_classifier =
     \<lparr>predict = (\<lambda>xs. Inr (map (\<lambda>x. ascii ''IT'') xs)),
      predict_proba = Some (\<lambda>xs. Inl (NotFittedError (ascii ''not fitted yet'')))\<rparr>"

text \<open>Classifiers whose rows hold a tie at the third decimal, and a NaN.\<close>

definition tie_classifier :: classifier where
  "tie_classifier =
     \<lparr>predict = (\<lambda>xs. Inr (map (\<lambda>x. ascii ''IT'') xs)),
      predict_proba = Some (\<lambda>xs. Inr (map (\<lambda>x. [Finite (1 / 8), Finite (7 / 8)]) xs))\<rparr>"

definition nan_classifier :: classifier where
  "nan_classifier =
     \<lparr>predict = (\<lambda>xs. Inr (map (\<lambda>x. ascii ''IT'') xs)),
      predict_proba = Some (\<lambda>xs. Inr (map (\<lambda>x. [NaN, Finite (1 / 2)]) xs))\<rparr>"



text \<open>A clock reading, and two environments: no model file, and a file that does not unpickle.\<close>

definition example_now :: datetime where
  "example_now = \<lparr>year = 2026, month = 11, day = 3, hour = 9, minute = 5, second = 7,
                    microsecond = 1234\<rparr>"

definition missing_env :: environment where
  "missing_env =
     \<lparr>MODEL_PATH = ascii ''models/language_detection_pipeline.pkl'',
      filesystem = (\<lambda>p. None),
      pickle_load = (\<lambda>b. Inr point_classifier)\<rparr>"

definition corrupt_env :: environment where
  "corrupt_env =
     \<lparr>MODEL_PATH = ascii ''models/language_detection_pipeline.pkl'',
      filesystem = (\<lambda>p. Some (RegularFile [0])),
      pickle_load = (\<lambda>b. Inl (new_exception (UserClass ''UnpicklingError'') (ascii ''invalid load key'')))\<rparr>"

section \<open>Properties\<close>

subsection \<open>Blank texts, rounding and the maximum\<close>

lemma dropWhile_all_iff: "(\<forall>x\<in>set (dropWhile P xs). P x) \<longleftrightarrow> (\<forall>x\<in>set xs. P x)"
  by (induction xs) auto

lemma strip_empty_iff: "(t = [] \<or> py_strip t = []) \<longleftrightarrow> (\<forall>c\<in>set t. py_isspace c)"
  by (auto simp: py_strip_def dropWhile_eq_Nil_conv dropWhile_all_iff)

lemma round_half_even_of_int: "round_half_even (of_int k) = k"
  by (simp add: round_half_even_def)

lemma round_half_even_near: "\<bar>y - of_int (round_half_even y)\<bar> \<le> 1 / 2"
proof -
  have f: "of_int \<lfloor>y\<rfloor> \<le> y" "y < of_int \<lfloor>y\<rfloor> + 1" by linarith+
  show ?thesis
    using f unfolding round_half_even_def Let_def by (auto split: if_splits)
qed

lemma round_half_even_tie:
  assumes "\<bar>y - of_int (round_half_even y)\<bar> = 1 / 2"
  shows "even (round_half_even y)"
proof -
  have f: "of_int \<lfloor>y\<rfloor> \<le> y" "y < of_int \<lfloor>y\<rfloor> + 1" by linarith+
  show ?thesis
    using assms f unfolding round_half_even_def Let_def
    by (auto split: if_splits)
qed

lemma round_half_even_unique:
  assumes "\<bar>y - of_int k\<bar> \<le> 1 / 2" and "\<bar>y - of_int k\<bar> = 1 / 2 \<longrightarrow> even k"
  shows "k = round_half_even y"
proof -
  let ?r = "round_half_even y"
  have n: "\<bar>y - of_int ?r\<bar> \<le> 1 / 2" by (rule round_half_even_near)
  have "\<bar>(of_int k :: rat) - of_int ?r\<bar> \<le> 1" using assms(1) n by linarith
  then have "\<bar>k - ?r\<bar> \<le> 1" by (metis of_int_1 of_int_abs of_int_diff of_int_le_iff)
  then consider "k = ?r" | "k = ?r + 1" | "k = ?r - 1" by linarith
  then show ?thesis
  proof cases
    case 1
    then show ?thesis .
  next
    case 2
    then have "\<bar>y - of_int k\<bar> = 1 / 2" "\<bar>y - of_int ?r\<bar> = 1 / 2" using assms(1) n by auto
    then have "even k" "even ?r" using assms(2) round_half_even_tie by auto
    then show ?thesis using 2 by simp
  next
    case 3
    then have "\<bar>y - of_int k\<bar> = 1 / 2" "\<bar>y - of_int ?r\<bar> = 1 / 2" using assms(1) n by auto
    then have "even k" "even ?r" using assms(2) round_half_even_tie by auto
    then show ?thesis using 3 by simp
  qed
qed

lemma round_half_even_mono_int:
  assumes "of_int a \<le> y" "y \<le> of_int b"
  shows "a \<le> round_half_even y \<and> round_half_even y \<le> b"
proof -
  have fa: "a \<le> \<lfloor>y\<rfloor>" using assms(1) by (simp add: le_floor_iff)
  have fb: "\<lfloor>y\<rfloor> \<le> b" using assms(2) by (simp add: floor_le_iff)
  show ?thesis
  proof (cases "\<lfloor>y\<rfloor> = b")
    case True
    then have "y = of_int b" using assms(2) by (metis of_int_floor_le order_antisym)
    then show ?thesis using assms fa by (simp add: round_half_even_of_int)
  next
    case False
    then have "\<lfloor>y\<rfloor> + 1 \<le> b" using fb by simp
    then show ?thesis using fa unfolding round_half_even_def Let_def by auto
  qed
qed

lemma py_round_idem: "py_round (py_round x n) n = py_round x n"
  by (cases x) (simp_all add: round_half_even_of_int)

lemma py_round_2:
  "py_round (Finite x) 2 = Finite (of_int (round_half_even (x * 100)) / 100)"
  by simp

lemma py_round_unit:
  assumes "0 \<le> x" "x \<le> 1"
  shows "0 \<le> (of_int (round_half_even (x * 100)) / 100 :: rat)
         \<and> (of_int (round_half_even (x * 100)) / 100 :: rat) \<le> 1"
  using round_half_even_mono_int[of 0 "x * 100" 100] assms by simp

lemma py_round_0_9: "py_round float_0_9 2 = Finite (9 / 10)"
  unfolding float_0_9_def by code_simp

text \<open>On a row of finite values \<open>max\<close> is the greatest value; in general it is an item of the row.\<close>

lemma fold_py_gt_Finite:
  "fold (\<lambda>item best. if py_gt item best then item else best) (map Finite qs) (Finite p) =
     Finite (fold max qs p)"
  by (induction qs arbitrary: p) (simp_all add: max_def)

lemma py_max_Finite:
  assumes "ps \<noteq> []"
  shows "py_max (map Finite ps) = Inr (Finite (Max (set ps)))"
proof (cases ps)
  case Nil
  then show ?thesis using assms by simp
next
  case (Cons p qs)
  then show ?thesis using Max.set_eq_fold[of p qs] by (simp add: py_max_def fold_py_gt_Finite)
qed

lemma fold_py_gt_member:
  "fold (\<lambda>item best. if py_gt item best then item else best) rest x \<in> insert x (set rest)"
  by (induction rest arbitrary: x) (auto split: if_splits)

lemma py_max_member: "py_max row = Inr c \<Longrightarrow> c \<in> set row"
  using fold_py_gt_member by (cases row) (auto simp: py_max_def)

lemma py_max_raises:
  "py_max row = Inl e \<Longrightarrow> row = [] \<and> e = new_exception ValueError (ascii ''max() arg is an empty sequence'')"
  by (cases row) (auto simp: py_max_def)

lemma isinstance_new_exception [simp]:
  "isinstance (new_exception IndexError m) c \<longleftrightarrow> c \<in> {IndexError, LookupError, Exception, BaseException}"
  "isinstance (new_exception ValueError m) c \<longleftrightarrow> c \<in> {ValueError, Exception, BaseException}"
  "isinstance (new_exception AttributeError m) c \<longleftrightarrow> c \<in> {AttributeError, Exception, BaseException}"
  "isinstance (new_exception TypeError m) c \<longleftrightarrow> c \<in> {TypeError, Exception, BaseException}"
  "isinstance (new_exception NotImplementedError m) c \<longleftrightarrow>
     c \<in> {NotImplementedError, RuntimeError, Exception, BaseException}"
  "isinstance (new_exception SystemExit m) c \<longleftrightarrow> c \<in> {SystemExit, BaseException}"
  "isinstance (new_exception FileNotFoundError m) c \<longleftrightarrow>
     c \<in> {FileNotFoundError, OSError, Exception, BaseException}"
  "isinstance (new_exception IsADirectoryError m) c \<longleftrightarrow>
     c \<in> {IsADirectoryError, OSError, Exception, BaseException}"
  "isinstance (new_exception (UserClass n) m) c \<longleftrightarrow> c \<in> {UserClass n, Exception, BaseException}"
  by (auto simp: isinstance_def new_exception_def)

lemma exc_str_new_exception [simp]: "exc_str (new_exception c m) = m"
  by (simp add: new_exception_def)

subsection \<open>The structure of \<open>identify_language\<close>\<close>

lemma logging_fields [simp]:
  "model (logging l m s) = model s"
  "invocations (logging l m s) = invocations s"
  "logger (logging l m s) = logger s @ [(l, m)]"
  by (simp_all add: logging_def)

lemma identify_language_blank:
  assumes "\<forall>c\<in>set t. py_isspace c"
  shows "fst (identify_language s t) = Inl (HTTPException 400 empty_text_msg)"
    and "invocations (snd (identify_language s t)) = invocations s"
    and "model (snd (identify_language s t)) = model s"
  using assms strip_empty_iff[of t] by (simp_all add: identify_language_def Let_def)


lemma try_body_fst_cong:
  "model s = model s' \<Longrightarrow> fst (try_body s t) = fst (try_body s' t)"
  by (auto simp: try_body_def confidence_block_def call_predict_def call_predict_proba_def Let_def
      split: option.splits sum.splits prod.splits if_splits)

lemma identify_language_nonblank:
  assumes "\<exists>c\<in>set t. \<not> py_isspace c"
  shows "fst (identify_language s t) =
     (case fst (try_body s t) of
        Inr response \<Rightarrow> Inr response
      | Inl e \<Rightarrow>
          if isinstance e Exception then Inl (HTTPException 500 (prediction_error_prefix @ exc_str e))
          else Inl (Unhandled e))"
proof -
  define s0 where "s0 = logging INFO (Text (ascii ''Richiesta ricevuta: '' @ take 100 t @ ascii ''...'')) s"
  have nb: "\<not> (t = [] \<or> py_strip t = [])" using assms strip_empty_iff[of t] by blast
  have eq: "fst (try_body s0 t) = fst (try_body s t)"
    by (rule try_body_fst_cong) (simp add: s0_def)
  have "fst (identify_language s t) =
     (case fst (try_body s0 t) of
        Inr response \<Rightarrow> Inr response
      | Inl e \<Rightarrow>
          if isinstance e Exception then Inl (HTTPException 500 (prediction_error_prefix @ exc_str e))
          else Inl (Unhandled e))"
    using nb by (simp add: identify_language_def Let_def s0_def split: prod.splits sum.splits)
  then show ?thesis by (simp only: eq)
qed



text \<open>The body of the \<open>try\<close> in terms of what the classifier does.\<close>

lemma try_body_no_model:
  assumes "model s = None"
  shows "\<exists>m. fst (try_body s t) = Inl (new_exception AttributeError m)"
proof -
  obtain m where "fst (call_predict s [t]) = Inl (new_exception AttributeError m)"
    using assms by (auto simp: call_predict_def)
  then have "fst (try_body s t) = Inl (new_exception AttributeError m)"
    by (auto simp: try_body_def Let_def split: prod.splits sum.splits)
  then show ?thesis by blast
qed

lemma try_body_predict_raises:
  "model s = Some clf \<Longrightarrow> predict clf [t] = Inl e \<Longrightarrow> fst (try_body s t) = Inl e"
  by (simp add: try_body_def call_predict_def Let_def)

lemma confidence_block_fst:
  "model s = Some clf \<Longrightarrow>
   fst (confidence_block s xs) =
     (case predict_proba clf of
        None \<Rightarrow> Inr float_0_9
      | Some f \<Rightarrow>
          (case f xs of
             Inl e \<Rightarrow> if isinstance e AttributeError \<or> isinstance e NotImplementedError
                       then Inr float_0_9 else Inl e
           | Inr [] \<Rightarrow> Inl (new_exception IndexError (ascii ''list index out of range''))
           | Inr (row # rows) \<Rightarrow> py_max row))"
proof -
  have v: "py_max row = Inl e \<Longrightarrow> \<not> isinstance e AttributeError \<and> \<not> isinstance e NotImplementedError"
    for row e
    using py_max_raises[of row e] by auto
  assume "model s = Some clf"
  then show ?thesis
    using v
    by (auto simp: confidence_block_def call_predict_proba_def Let_def py_getitem0_def
        split: option.splits sum.splits list.splits)
qed

lemma try_body_predict_returns:
  "model s = Some clf \<Longrightarrow> predict clf [t] = Inr labels \<Longrightarrow>
   fst (try_body s t) =
     (case fst (confidence_block s [t]) of
        Inl e \<Rightarrow> Inl e
      | Inr confidence \<Rightarrow>
          (case labels of
             [] \<Rightarrow> Inl (new_exception IndexError (ascii ''list index out of range''))
           | code # _ \<Rightarrow> Inr (Dict [(''language_code'', Str code),
                                    (''confidence'', Float (py_round confidence 2))])))"
  by (auto simp: try_body_def call_predict_def Let_def py_getitem0_def confidence_block_def call_predict_proba_def
      split: option.splits sum.splits list.splits prod.splits)

lemma confidence_block_cases:
  assumes m: "model s = Some clf"
  shows "fst (confidence_block s [t]) = Inr float_0_9
       \<or> (\<exists>f row rows c. predict_proba clf = Some f \<and> f [t] = Inr (row # rows)
             \<and> py_max row = Inr c \<and> fst (confidence_block s [t]) = Inr c)
       \<or> (\<exists>e. fst (confidence_block s [t]) = Inl e
             \<and> (isinstance e Exception \<or> (\<exists>f. predict_proba clf = Some f \<and> f [t] = Inl e)))"
proof (cases "predict_proba clf")
  case None
  then show ?thesis by (simp add: confidence_block_fst[OF m])
next
  case (Some f)
  show ?thesis
  proof (cases "f [t]")
    case (Inl e)
    then show ?thesis using Some by (simp add: confidence_block_fst[OF m])
  next
    case (Inr probabilities)
    show ?thesis
    proof (cases probabilities)
      case Nil
      then show ?thesis using Some Inr by (simp add: confidence_block_fst[OF m])
    next
      case (Cons row rows)
      show ?thesis
      proof (cases "py_max row")
        case (Inl e)
        then have "isinstance e Exception" using py_max_raises[of row e] by auto
        then show ?thesis using Some Inr Cons Inl by (simp add: confidence_block_fst[OF m])
      next
        case c: (Inr c)
        have "fst (confidence_block s [t]) = Inr c"
          using Some Inr Cons c by (simp add: confidence_block_fst[OF m])
        then show ?thesis using Some Inr Cons c by blast
      qed
    qed
  qed
qed

lemma try_body_returns_cases:
  assumes r: "fst (try_body s t) = Inr response"
  shows "\<exists>clf code others confidence. model s = Some clf \<and> predict clf [t] = Inr (code # others)
           \<and> fst (confidence_block s [t]) = Inr confidence
           \<and> response = Dict [(''language_code'', Str code),
                              (''confidence'', Float (py_round confidence 2))]"
proof (cases "model s")
  case None
  then show ?thesis using r try_body_no_model[of s t] by auto
next
  case (Some clf)
  show ?thesis
  proof (cases "predict clf [t]")
    case (Inl e)
    then show ?thesis using r Some by (simp add: try_body_predict_raises)
  next
    case (Inr labels)
    then show ?thesis using r Some
      by (cases labels) (auto simp: try_body_predict_returns split: sum.splits)
  qed
qed

lemma identify_language_proba:
  assumes "\<exists>c\<in>set t. \<not> py_isspace c"
    and "model s = Some clf"
    and "predict clf [t] = Inr (code # others)"
    and "predict_proba clf = Some f"
    and "f [t] = Inr (row # rows)"
    and "py_max row = Inr c"
  shows "fst (identify_language s t) =
           Inr (Dict [(''language_code'', Str code), (''confidence'', Float (py_round c 2))])"
proof -
  have "fst (confidence_block s [t]) = Inr c"
    using assms(2,4,5,6) by (simp add: confidence_block_fst)
  then have "fst (try_body s t) =
      Inr (Dict [(''language_code'', Str code), (''confidence'', Float (py_round c 2))])"
    using assms(2,3) by (simp add: try_body_predict_returns)
  then show ?thesis using assms(1) by (simp add: identify_language_nonblank)
qed


lemma identify_language_invokes:
  assumes "\<exists>c\<in>set t. \<not> py_isspace c" and "model s = Some clf"
  shows "\<exists>rest. invocations (snd (identify_language s t)) = invocations s @ Predict [t] # rest"
proof -
  have "\<not> (t = [] \<or> py_strip t = [])" using assms(1) strip_empty_iff[of t] by blast
  then show ?thesis using assms(2)
    by (auto simp: identify_language_def try_body_def confidence_block_def call_predict_def
        call_predict_proba_def Let_def split: option.splits sum.splits prod.splits if_splits)
qed

subsection \<open>Concrete requests\<close>

lemma blank_text_blank: "\<forall>c\<in>set blank_text. py_isspace c"
  by (simp add: blank_text_def py_isspace_def)

lemma example_text_nonblank: "\<exists>c\<in>set example_text. \<not> py_isspace c"
  by (simp add: example_text_def ascii_def py_isspace_def)

lemma model_serving: "model (serving clf) = Some clf"
  by (simp add: serving_def initial_state_def)

lemma failing_states_fail:
  "http_status (fst (identify_language initial_state example_text)) = Some 500"
  "http_status (fst (identify_language (serving failing_classifier) example_text)) = Some 500"
proof -
  have nb: "\<exists>c\<in>set example_text. \<not> py_isspace c" by (rule example_text_nonblank)
  obtain m where "fst (try_body initial_state example_text) = Inl (new_exception AttributeError m)"
    using try_body_no_model[of initial_state example_text] by (auto simp: initial_state_def)
  then show "http_status (fst (identify_language initial_state example_text)) = Some 500"
    by (simp add: identify_language_nonblank[OF nb] http_status_def)
  have "fst (try_body (serving failing_classifier) example_text) =
          Inl (new_exception ValueError (ascii ''empty vocabulary''))"
    by (rule try_body_predict_raises[of _ failing_classifier])
       (simp_all add: serving_def initial_state_def failing_classifier_def)
  then show "http_status (fst (identify_language (serving failing_classifier) example_text)) = Some 500"
    by (simp add: identify_language_nonblank[OF nb] http_status_def)
qed


text \<open>
  A NaN in first place of the row is the \<open>max\<close> of the row and is returned as the
  confidence.
\<close>

lemma nan_classifier_response:
  "fst (identify_language (serving nan_classifier) example_text) =
     Inr (Dict [(''language_code'', Str (ascii ''IT'')), (''confidence'', Float NaN)])"
proof -
  have p: "predict nan_classifier [example_text] = Inr (ascii ''IT'' # [])"
    by (simp add: nan_classifier_def)
  have q: "predict_proba nan_classifier = Some (\<lambda>xs. Inr (map (\<lambda>x. [NaN, Finite (1 / 2)]) xs))"
    by (simp add: nan_classifier_def)
  have r: "(\<lambda>xs. Inr (map (\<lambda>x. [NaN, Finite (1 / 2)]) xs)) [example_text] =
             (Inr ([NaN, Finite (1 / 2)] # []) :: pyexn + pyfloat list list)"
    by simp
  have v: "py_max [NaN, Finite (1 / 2)] = Inr NaN"
    by (simp add: py_max_def)
  from identify_language_proba [OF example_text_nonblank model_serving p q r v]
  show ?thesis by simp
qed

subsection \<open>Claims about \<open>identify_language\<close>\<close>

text \<open>
  Claim C1. For a text that is not blank, let \<open>predict([text])\<close> return a sequence
  with a first element. Then every response of the handler has that first element as
  its \<open>language_code\<close>; and when \<open>predict_proba([text])\<close> is available and returns a
  first row of finite values that is not empty, the handler returns, with status 200,
  the dictionary whose \<open>confidence\<close> is the maximum of that row rounded to 2 decimals:
  a number of hundredths \<open>k / 100\<close> at most half a hundredth away from the maximum,
  with \<open>k\<close> even when the maximum lies half way between two hundredths. These
  conditions fix \<open>k\<close> (\<open>round_half_even_unique\<close>). The witness is the scenario of the
  specification: the example text of line 72 (\<open>example_text\<close>), the label \<open>IT\<close> and
  the top probability \<open>0.98\<close> give \<open>{language_code: IT, confidence: 0.98}\<close>; a top
  value of \<open>0.875\<close> gives \<open>0.88\<close> (\<open>tie_classifier_response\<close>).
\<close>

theorem identify_language_response:
  assumes nb: "\<exists>c\<in>set t. \<not> py_isspace c"
    and m: "model s = Some clf"
    and p: "predict clf [t] = Inr (code # others)"
  shows "(\<forall>response. fst (identify_language s t) = Inr response
            \<longrightarrow> dict_get response ''language_code'' = Some (Str code))
         \<and> (\<forall>f ps rows. predict_proba clf = Some f \<and> f [t] = Inr (map Finite ps # rows) \<and> ps \<noteq> []
            \<longrightarrow> (\<exists>k::int.
                   fst (identify_language s t) =
                     Inr (Dict [(''language_code'', Str code),
                                (''confidence'', Float (Finite (of_int k / 100)))])
                   \<and> \<bar>Max (set ps) * 100 - of_int k\<bar> \<le> 1 / 2
                   \<and> (\<bar>Max (set ps) * 100 - of_int k\<bar> = 1 / 2 \<longrightarrow> even k))
                \<and> http_status (fst (identify_language s t)) = Some 200)"
proof -
  have "dict_get response ''language_code'' = Some (Str code)"
    if "fst (identify_language s t) = Inr response" for response
  proof -
    have "fst (try_body s t) = Inr response"
      using that by (auto simp: identify_language_nonblank[OF nb] split: sum.splits if_splits)
    then show ?thesis using try_body_returns_cases[of s t response] m p by auto
  qed
  moreover have "(\<exists>k::int.
                   fst (identify_language s t) =
                     Inr (Dict [(''language_code'', Str code),
                                (''confidence'', Float (Finite (of_int k / 100)))])
                   \<and> \<bar>Max (set ps) * 100 - of_int k\<bar> \<le> 1 / 2
                   \<and> (\<bar>Max (set ps) * 100 - of_int k\<bar> = 1 / 2 \<longrightarrow> even k))
                \<and> http_status (fst (identify_language s t)) = Some 200"
    if h: "predict_proba clf = Some f" "f [t] = Inr (map Finite ps # rows)" "ps \<noteq> []" for f ps rows
  proof -
    let ?k = "round_half_even (Max (set ps) * 100)"
    have r: "fst (identify_language s t) =
               Inr (Dict [(''language_code'', Str code),
                          (''confidence'', Float (Finite (of_int ?k / 100)))])"
      using identify_language_proba [OF nb m p h(1) h(2) py_max_Finite[OF h(3)]] by simp
    have "\<bar>Max (set ps) * 100 - of_int ?k\<bar> \<le> 1 / 2"
      by (rule round_half_even_near)
    moreover have "\<bar>Max (set ps) * 100 - of_int ?k\<bar> = 1 / 2 \<longrightarrow> even ?k"
      using round_half_even_tie by blast
    ultimately show ?thesis using r by (auto simp: http_status_def)
  qed
  ultimately show ?thesis by blast
qed

lemma example_row_max:
  "Max (set [5764607523034235 / 576460752303423488, 2206763817411543 / 2251799813685248,
             5764607523034235 / 576460752303423488 :: rat]) = 2206763817411543 / 2251799813685248"
  by simp

theorem identify_language_response_witness:
  "fst (identify_language (serving it_classifier) example_text) =
     Inr (Dict [(''language_code'', Str (ascii ''IT'')), (''confidence'', Float (Finite (98 / 100)))])
   \<and> http_status (fst (identify_language (serving it_classifier) example_text)) = Some 200"
proof -
  let ?ps = "[5764607523034235 / 576460752303423488, 2206763817411543 / 2251799813685248,
              5764607523034235 / 576460752303423488 :: rat]"
  let ?f = "\<lambda>xs :: pystr list. (Inr (map (\<lambda>x. [float_0_01, float_0_98, float_0_01]) xs)
              :: pyexn + pyfloat list list)"
  have p: "predict it_classifier [example_text] = Inr (ascii ''IT'' # [])"
    by (simp add: it_classifier_def)
  have c: "predict_proba it_classifier = Some ?f \<and> ?f [example_text] = Inr (map Finite ?ps # [])
           \<and> ?ps \<noteq> []"
    by (simp add: it_classifier_def float_0_01_def float_0_98_def)
  from identify_language_response [OF example_text_nonblank model_serving p,
      THEN conjunct2, rule_format, OF c]
  obtain k :: int where
    r: "fst (identify_language (serving it_classifier) example_text) =
          Inr (Dict [(''language_code'', Str (ascii ''IT'')),
                     (''confidence'', Float (Finite (of_int k / 100)))])"
    and n: "\<bar>Max (set ?ps) * 100 - of_int k\<bar> \<le> 1 / 2"
    and st: "http_status (fst (identify_language (serving it_classifier) example_text)) = Some 200"
    by blast
  have "\<bar>(2206763817411543 / 2251799813685248 :: rat) * 100 - of_int k\<bar> \<le> 1 / 2"
    using n unfolding example_row_max .
  then have "(97 :: rat) < of_int k" "of_int k < (99 :: rat)" by linarith+
  then have "97 < k" "k < 99" by linarith+
  then have "k = 98" by linarith
  then show ?thesis using r st by simp
qed

text \<open>
  Claim C2. For a text that is empty or made of whitespace only, the handler raises
  the \<open>HTTPException\<close> of status 400 and the classifier is not invoked: the calls
  recorded on it are the same after the request as before. (On a text that is not
  blank and a loaded model the record grows, \<open>identify_language_invokes\<close>.)
\<close>

theorem blank_text_rejected:
  assumes "\<forall>c\<in>set t. py_isspace c"
  shows "fst (identify_language s t) = Inl (HTTPException 400 empty_text_msg)
         \<and> http_status (fst (identify_language s t)) = Some 400
         \<and> invocations (snd (identify_language s t)) = invocations s"
  using identify_language_blank [OF assms, of s] by (simp add: http_status_def)

theorem blank_text_rejected_witness:
  "http_status (fst (identify_language (serving it_classifier) blank_text)) = Some 400
   \<and> invocations (snd (identify_language (serving it_classifier) blank_text)) = []
   \<and> http_status (fst (identify_language (serving it_classifier) [])) = Some 400
   \<and> invocations (snd (identify_language (serving it_classifier) [])) = []"
proof -
  have e: "\<forall>c\<in>set ([]::pystr). py_isspace c" by simp
  have i: "invocations (serving it_classifier) = []" by (simp add: serving_def initial_state_def)
  show ?thesis
    using blank_text_rejected [OF blank_text_blank, of "serving it_classifier"]
      blank_text_rejected [OF e, of "serving it_classifier"] i
    by (simp add: http_status_def)
qed

text \<open>
  Claim C9. For a blank text the handler raises the 400 whatever the model is: also
  when \<open>model\<close> is \<open>None\<close> and when the classifier would fail on every text
  (\<open>failing_states_fail\<close>: both states answer a text that is not blank with 500). The
  check comes before the \<open>try\<close>, so the 400 is not turned into a 500.
\<close>

theorem blank_text_never_reaches_model:
  assumes "\<forall>c\<in>set t. py_isspace c"
  shows "fst (identify_language (s\<lparr>model := m\<rparr>) t) = Inl (HTTPException 400 empty_text_msg)
         \<and> http_status (fst (identify_language (s\<lparr>model := m\<rparr>) t)) \<noteq> Some 500"
  using identify_language_blank(1) [OF assms, of "s\<lparr>model := m\<rparr>"] by (simp add: http_status_def)

theorem blank_text_never_reaches_model_witness:
  "fst (identify_language (initial_state\<lparr>model := None\<rparr>) blank_text) = Inl (HTTPException 400 empty_text_msg)
   \<and> fst (identify_language (initial_state\<lparr>model := Some failing_classifier\<rparr>) blank_text)
       = Inl (HTTPException 400 empty_text_msg)"
  using blank_text_never_reaches_model [OF blank_text_blank, where s = initial_state and m = None]
    blank_text_never_reaches_model [OF blank_text_blank, where s = initial_state
      and m = "Some failing_classifier"]
  by simp

text \<open>
  Claim C3. When the classifier has no probability capability (the attribute
  \<open>predict_proba\<close> is missing, or the call raises an instance of \<open>AttributeError\<close> or
  of \<open>NotImplementedError\<close>), every response to a text that is not blank has the
  confidence 0.9, and there is such a response as soon as \<open>predict\<close> returns a first
  label.
\<close>

theorem fallback_confidence:
  assumes nb: "\<exists>c\<in>set t. \<not> py_isspace c"
    and m: "model s = Some clf"
    and nocap: "predict_proba clf = None \<or>
       (\<exists>f e. predict_proba clf = Some f \<and> f [t] = Inl e
          \<and> (isinstance e AttributeError \<or> isinstance e NotImplementedError))"
  shows "(\<forall>response. fst (identify_language s t) = Inr response
            \<longrightarrow> dict_get response ''confidence'' = Some (Float (Finite (9 / 10))))
         \<and> (\<forall>code others. predict clf [t] = Inr (code # others)
            \<longrightarrow> fst (identify_language s t) =
                  Inr (Dict [(''language_code'', Str code),
                             (''confidence'', Float (Finite (9 / 10)))]))"
proof -
  have cb: "fst (confidence_block s [t]) = Inr float_0_9"
    using m nocap by (auto simp: confidence_block_fst)
  have ret: "fst (try_body s t) =
         Inr (Dict [(''language_code'', Str code), (''confidence'', Float (Finite (9 / 10)))])"
    if "predict clf [t] = Inr (code # others)" for code others
    using that m cb by (simp add: try_body_predict_returns py_round_0_9)
  have conf: "dict_get response ''confidence'' = Some (Float (Finite (9 / 10)))"
    if r: "fst (try_body s t) = Inr response" for response
  proof (cases "predict clf [t]")
    case (Inl e)
    then show ?thesis using r m by (simp add: try_body_predict_raises)
  next
    case (Inr labels)
    then show ?thesis using r m cb
      by (cases labels) (auto simp: try_body_predict_returns py_round_0_9)
  qed
  show ?thesis
    using ret conf by (auto simp: identify_language_nonblank[OF nb] split: sum.splits if_splits)
qed

theorem fallback_confidence_witness:
  "fst (identify_language (serving point_classifier) example_text) =
     Inr (Dict [(''language_code'', Str (ascii ''IT'')), (''confidence'', Float (Finite (9 / 10)))])
   \<and> fst (identify_language (serving unimplemented_classifier) example_text) =
     Inr (Dict [(''language_code'', Str (ascii ''IT'')), (''confidence'', Float (Finite (9 / 10)))])
   \<and> fst (identify_language (serving unfitted_classifier) example_text) =
     Inr (Dict [(''language_code'', Str (ascii ''IT'')), (''confidence'', Float (Finite (9 / 10)))])"
proof -
  have a: "predict_proba point_classifier = None \<or>
       (\<exists>f e. predict_proba point_classifier = Some f \<and> f [example_text] = Inl e
          \<and> (isinstance e AttributeError \<or> isinstance e NotImplementedError))"
    by (simp add: point_classifier_def)
  have b: "predict_proba unimplemented_classifier = None \<or>
       (\<exists>f e. predict_proba unimplemented_classifier = Some f \<and> f [example_text] = Inl e
          \<and> (isinstance e AttributeError \<or> isinstance e NotImplementedError))"
    by (simp add: unimplemented_classifier_def)
  have c: "predict_proba unfitted_classifier = None \<or>
       (\<exists>f e. predict_proba unfitted_classifier = Some f \<and> f [example_text] = Inl e
          \<and> (isinstance e AttributeError \<or> isinstance e NotImplementedError))"
    by (simp add: unfitted_classifier_def NotFittedError_def isinstance_def)
  have pa: "predict point_classifier [example_text] = Inr (ascii ''IT'' # [])"
    by (simp add: point_classifier_def)
  have pb: "predict unimplemented_classifier [example_text] = Inr (ascii ''IT'' # [])"
    by (simp add: unimplemented_classifier_def)
  have pc: "predict unfitted_classifier [example_text] = Inr (ascii ''IT'' # [])"
    by (simp add: unfitted_classifier_def)
  show ?thesis
    using fallback_confidence [OF example_text_nonblank model_serving a] pa
      fallback_confidence [OF example_text_nonblank model_serving b] pb
      fallback_confidence [OF example_text_nonblank model_serving c] pc
    by blast
qed

lemma float_literals_unit:
  "\<exists>q. float_0_9 = Finite q \<and> 0 \<le> q \<and> q \<le> 1"
  "\<exists>q. float_0_98 = Finite q \<and> 0 \<le> q \<and> q \<le> 1"
  "\<exists>q. float_0_01 = Finite q \<and> 0 \<le> q \<and> q \<le> 1"
proof -
  show "\<exists>q. float_0_9 = Finite q \<and> 0 \<le> q \<and> q \<le> 1"
    unfolding float_0_9_def by (rule exI[of _ "8106479329266893 / 9007199254740992"]) simp
  show "\<exists>q. float_0_98 = Finite q \<and> 0 \<le> q \<and> q \<le> 1"
    unfolding float_0_98_def by (rule exI[of _ "2206763817411543 / 2251799813685248"]) simp
  show "\<exists>q. float_0_01 = Finite q \<and> 0 \<le> q \<and> q \<le> 1"
    unfolding float_0_01_def by (rule exI[of _ "5764607523034235 / 576460752303423488"]) simp
qed

text \<open>
  Claim C4. Let the classifier keep the contract of the specification: the rows that
  \<open>predict_proba\<close> returns hold probabilities, finite values in \<open>[0, 1]\<close>. Then the
  confidence of every response to a text that is not blank lies in \<open>[0, 1]\<close> and is
  rounded to 2 decimals: it is a number of hundredths and equals its own rounding.
  The fallback \<open>0.9\<close> is covered.
\<close>

theorem confidence_rounded_and_bounded:
  assumes nb: "\<exists>c\<in>set t. \<not> py_isspace c"
    and r: "fst (identify_language s t) = Inr response"
    and distribution:
      "\<forall>clf f row rows. model s = Some clf \<and> predict_proba clf = Some f \<and> f [t] = Inr (row # rows)
         \<longrightarrow> (\<forall>p\<in>set row. \<exists>q. p = Finite q \<and> 0 \<le> q \<and> q \<le> 1)"
  shows "\<exists>code c. response = Dict [(''language_code'', Str code), (''confidence'', Float (Finite c))]
           \<and> 0 \<le> c \<and> c \<le> 1
           \<and> (\<exists>k::int. c = of_int k / 100)
           \<and> py_round (Finite c) 2 = Finite c"
proof -
  have "fst (try_body s t) = Inr response"
    using r by (auto simp: identify_language_nonblank[OF nb] split: sum.splits if_splits)
  then obtain clf code others confidence where
    m: "model s = Some clf" and cb: "fst (confidence_block s [t]) = Inr confidence"
    and resp: "response = Dict [(''language_code'', Str code),
                              (''confidence'', Float (py_round confidence 2))]"
    using try_body_returns_cases by blast
  have "\<exists>q. confidence = Finite q \<and> 0 \<le> q \<and> q \<le> 1"
  proof -
    from confidence_block_cases[OF m, of t] cb
    consider "confidence = float_0_9"
      | f row rows where "predict_proba clf = Some f" "f [t] = Inr (row # rows)"
          "py_max row = Inr confidence"
      by auto
    then show ?thesis
    proof cases
      case 1
      then show ?thesis using float_literals_unit(1) by simp
    next
      case 2
      have "confidence \<in> set row" using 2(3) by (rule py_max_member)
      then show ?thesis using distribution m 2(1,2) by blast
    qed
  qed
  then obtain q where q: "confidence = Finite q" "0 \<le> q" "q \<le> 1" by blast
  let ?c = "of_int (round_half_even (q * 100)) / 100 :: rat"
  have "response = Dict [(''language_code'', Str code), (''confidence'', Float (Finite ?c))]"
    using resp q(1) by simp
  moreover have "0 \<le> ?c \<and> ?c \<le> 1" using py_round_unit[OF q(2,3)] .
  moreover have "\<exists>k::int. ?c = of_int k / 100" by blast
  moreover have "py_round (Finite ?c) 2 = Finite ?c" by (simp add: round_half_even_of_int)
  ultimately show ?thesis by blast
qed

lemma it_classifier_response:
  "fst (identify_language (serving it_classifier) example_text) =
     Inr (Dict [(''language_code'', Str (ascii ''IT'')), (''confidence'', Float (Finite (98 / 100)))])"
proof -
  have p: "predict it_classifier [example_text] = Inr (ascii ''IT'' # [])"
    by (simp add: it_classifier_def)
  have q: "predict_proba it_classifier =
             Some (\<lambda>xs. Inr (map (\<lambda>x. [float_0_01, float_0_98, float_0_01]) xs))"
    by (simp add: it_classifier_def)
  have r: "(\<lambda>xs. Inr (map (\<lambda>x. [float_0_01, float_0_98, float_0_01]) xs)) [example_text] =
             (Inr ([float_0_01, float_0_98, float_0_01] # []) :: pyexn + pyfloat list list)"
    by simp
  have v: "py_max [float_0_01, float_0_98, float_0_01] = Inr float_0_98"
    by (simp add: py_max_def float_0_01_def float_0_98_def)
  have w: "py_round float_0_98 2 = Finite (98 / 100)"
    unfolding float_0_98_def by code_simp
  from identify_language_proba [OF example_text_nonblank model_serving p q r v]
  show ?thesis unfolding w .
qed

lemma tie_classifier_response:
  "fst (identify_language (serving tie_classifier) example_text) =
     Inr (Dict [(''language_code'', Str (ascii ''IT'')), (''confidence'', Float (Finite (88 / 100)))])"
proof -
  have p: "predict tie_classifier [example_text] = Inr (ascii ''IT'' # [])"
    by (simp add: tie_classifier_def)
  have q: "predict_proba tie_classifier =
             Some (\<lambda>xs. Inr (map (\<lambda>x. [Finite (1 / 8), Finite (7 / 8)]) xs))"
    by (simp add: tie_classifier_def)
  have r: "(\<lambda>xs. Inr (map (\<lambda>x. [Finite (1 / 8), Finite (7 / 8)]) xs)) [example_text] =
             (Inr ([Finite (1 / 8), Finite (7 / 8)] # []) :: pyexn + pyfloat list list)"
    by simp
  have v: "py_max [Finite (1 / 8), Finite (7 / 8)] = Inr (Finite (7 / 8))"
    by (simp add: py_max_def)
  have w: "py_round (Finite (7 / 8)) 2 = Finite (88 / 100)"
    by code_simp
  from identify_language_proba [OF example_text_nonblank model_serving p q r v]
  show ?thesis unfolding w .
qed

theorem confidence_rounded_and_bounded_witness:
  "\<exists>code c. fst (identify_language (serving it_classifier) example_text) =
        Inr (Dict [(''language_code'', Str code), (''confidence'', Float (Finite c))])
      \<and> 0 \<le> c \<and> c \<le> 1 \<and> (\<exists>k::int. c = of_int k / 100) \<and> py_round (Finite c) 2 = Finite c"
proof -
  have h: "\<forall>clf f row rows. model (serving it_classifier) = Some clf \<and> predict_proba clf = Some f
              \<and> f [example_text] = Inr (row # rows)
              \<longrightarrow> (\<forall>p\<in>set row. \<exists>q. p = Finite q \<and> 0 \<le> q \<and> q \<le> 1)"
    using float_literals_unit(2,3) by (auto simp: model_serving it_classifier_def)
  from confidence_rounded_and_bounded [OF example_text_nonblank it_classifier_response h]
  obtain code c where
    "Dict [(''language_code'', Str (ascii ''IT'')), (''confidence'', Float (Finite (98 / 100)))] =
       Dict [(''language_code'', Str code), (''confidence'', Float (Finite c))]"
    and "0 \<le> c \<and> c \<le> 1" and "\<exists>k::int. c = of_int k / 100" and "py_round (Finite c) 2 = Finite c"
    by blast
  with it_classifier_response show ?thesis by blast
qed






subsection \<open>\<open>isoformat\<close> and its reader\<close>

declare dec_digits.simps [simp del]

lemma length_dec_digits: "0 < k \<Longrightarrow> n < 10 ^ k \<Longrightarrow> length (dec_digits n) \<le> k"
proof (induction n arbitrary: k rule: dec_digits.induct)
  case (1 n)
  show ?case
  proof (cases "n < 10")
    case True
    then show ?thesis using "1.prems" by (simp add: dec_digits.simps[of n])
  next
    case False
    then obtain k' where k: "k = Suc k'" using "1.prems" by (cases k) auto
    have "k' \<noteq> 0" using False "1.prems" k by (cases k') auto
    moreover have "n div 10 < 10 ^ k'" using "1.prems" k by (simp add: less_mult_imp_div_less mult.commute)
    ultimately have "length (dec_digits (n div 10)) \<le> k'" using "1.IH"[OF False, of k'] by simp
    then show ?thesis using False k by (simp add: dec_digits.simps[of n])
  qed
qed

lemma digits_value_append:
  "digits_value acc (xs @ ys) =
     (case digits_value acc xs of None \<Rightarrow> None | Some a \<Rightarrow> digits_value a ys)"
  by (induction xs arbitrary: acc) auto

lemma digits_value_replicate: "digits_value acc (replicate k 48) = Some (acc * 10 ^ k)"
  by (induction k arbitrary: acc) auto

lemma digits_value_dec_digits:
  "digits_value acc (dec_digits n) = Some (acc * 10 ^ length (dec_digits n) + n)"
proof (induction n arbitrary: acc rule: dec_digits.induct)
  case (1 n)
  show ?case
  proof (cases "n < 10")
    case True
    then show ?thesis by (simp add: dec_digits.simps[of n])
  next
    case False
    then show ?thesis using "1.IH"[OF False, of acc]
      by (simp add: dec_digits.simps[of n] digits_value_append algebra_simps)
  qed
qed

lemma digits_value_zero_pad: "digits_value 0 (zero_pad w n) = Some n"
  by (simp add: zero_pad_def Let_def digits_value_append digits_value_replicate digits_value_dec_digits)

lemma length_zero_pad: "0 < w \<Longrightarrow> n < 10 ^ w \<Longrightarrow> length (zero_pad w n) = w"
  using length_dec_digits[of w n] by (simp add: zero_pad_def Let_def)

lemma iso_shape:
  fixes a b c d e f g :: pystr
  assumes "length a = 4" "length b = 2" "length c = 2" "length d = 2" "length e = 2" "length f = 2"
  defines "s \<equiv> a @ [45] @ b @ [45] @ c @ [84] @ d @ [58] @ e @ [58] @ f @ g"
  shows "length s = 19 + length g"
    and "s ! 4 = 45" "s ! 7 = 45" "s ! 10 = 84" "s ! 13 = 58" "s ! 16 = 58"
    and "take 4 s = a" "take 2 (drop 5 s) = b" "take 2 (drop 8 s) = c" "take 2 (drop 11 s) = d"
    and "take 2 (drop 14 s) = e" "take 2 (drop 17 s) = f" "drop 19 s = g"
  using assms by (simp_all add: nth_append)

lemma parse_isoformat:
  assumes v: "valid_datetime now"
  shows "parse_iso8601 (isoformat now) = Some now"
proof -
  define a where "a = zero_pad 4 (year now)"
  define b where "b = zero_pad 2 (month now)"
  define c where "c = zero_pad 2 (day now)"
  define d where "d = zero_pad 2 (hour now)"
  define e where "e = zero_pad 2 (minute now)"
  define f where "f = zero_pad 2 (second now)"
  define g where "g = (if microsecond now \<noteq> 0 then [46] @ zero_pad 6 (microsecond now) else [])"
  have dm: "days_in_month (year now) (month now) \<le> 31"
    by (simp add: days_in_month_def)
  have la: "length a = 4" and lb: "length b = 2" and lc: "length c = 2"
    and ld: "length d = 2" and le: "length e = 2" and lf: "length f = 2"
    using v dm by (simp_all add: valid_datetime_def a_def b_def c_def d_def e_def f_def length_zero_pad)
  have iso: "isoformat now = a @ [45] @ b @ [45] @ c @ [84] @ d @ [58] @ e @ [58] @ f @ g"
    by (simp add: isoformat_def ascii_def a_def b_def c_def d_def e_def f_def g_def)
  note sh = iso_shape[OF la lb lc ld le lf, of g, folded iso]
  have lg: "length g = 0 \<or> (length g = 7 \<and> g ! 0 = 46)"
    using v by (simp add: g_def valid_datetime_def length_zero_pad)
  have s19: "isoformat now ! 19 = g ! 0" if "length g = 7"
    using that la lb lc ld le lf by (simp add: iso nth_append)
  have d20: "drop 20 (isoformat now) = drop (Suc 0) g"
    using sh(13) drop_drop[of "Suc 0" 19 "isoformat now"] by simp
  have us: "digits_value 0 (drop (Suc 0) g) = Some (microsecond now)"
    by (simp add: g_def digits_value_zero_pad)
  have guard: "(length (isoformat now) = 19 \<or> (length (isoformat now) = 26 \<and> isoformat now ! 19 = 46))
         \<and> isoformat now ! 4 = 45 \<and> isoformat now ! 7 = 45 \<and> isoformat now ! 10 = 84
         \<and> isoformat now ! 13 = 58 \<and> isoformat now ! 16 = 58"
    using lg s19 sh(1-6) by auto
  have re: "\<lparr>year = year now, month = month now, day = day now, hour = hour now,
              minute = minute now, second = second now, microsecond = microsecond now\<rparr> = now"
    by simp
  show ?thesis
    unfolding parse_iso8601_def
    using guard v
    by (simp add: sh(7-12) d20 us a_def b_def c_def d_def e_def f_def digits_value_zero_pad Let_def re)
qed

lemma example_now_valid: "valid_datetime example_now"
  by (simp add: valid_datetime_def example_now_def days_in_month_def)

lemma example_now_isoformat: "isoformat example_now = ascii ''2026-11-03T09:05:07.001234''"
  by code_simp

lemma parse_iso8601_rejects:
  "parse_iso8601 (ascii ''healthy'') = None"
  "parse_iso8601 (ascii ''2026-13-03T09:05:07'') = None"
  "parse_iso8601 (ascii ''2026-02-29T09:05:07'') = None"
  "parse_iso8601 (ascii ''2026-11-03 09:05:07'') = None"
  by code_simp+

subsection \<open>Claims about \<open>health_check\<close> and \<open>root\<close>\<close>

text \<open>
  Claim C6. Whatever the state of the process and of the model, \<open>health_check\<close>
  returns, with status 200, the dictionary whose \<open>status\<close> is the string
  \<open>healthy\<close> and whose \<open>timestamp\<close> is the \<open>isoformat\<close> of the clock reading; that
  string parses as ISO-8601, back to the reading itself. The handler changes nothing.
\<close>

theorem health_check_healthy:
  assumes "valid_datetime now"
  shows "fst (health_check s now) =
           Inr (Dict [(''status'', Str (ascii ''healthy'')), (''timestamp'', Str (isoformat now))])
         \<and> http_status (fst (health_check s now)) = Some 200
         \<and> parse_iso8601 (isoformat now) = Some now
         \<and> fst (health_check (s\<lparr>model := m\<rparr>) now) = fst (health_check s now)
         \<and> snd (health_check s now) = s"
  using parse_isoformat [OF assms] by (simp add: health_check_def http_status_def)

theorem health_check_healthy_witness:
  "fst (health_check initial_state example_now) =
     Inr (Dict [(''status'', Str (ascii ''healthy'')),
                (''timestamp'', Str (ascii ''2026-11-03T09:05:07.001234''))])
   \<and> parse_iso8601 (ascii ''2026-11-03T09:05:07.001234'') = Some example_now"
  using health_check_healthy [OF example_now_valid, of initial_state]
  by (simp add: example_now_isoformat)

text \<open>
  Claim C7. \<open>root\<close> returns the same dictionary \<open>{message, version, endpoints:
  {identify_language, health, docs}}\<close> in every state, so any two calls agree, and it
  returns the state it was given.
\<close>

theorem root_pure:
  "root s =
     (Inr (Dict [(''message'', Str (ascii ''Benvenuto all'API di MuseumLangID'')),
                 (''version'', Str (ascii ''1.0.0'')),
                 (''endpoints'',
                    Dict [(''identify_language'', Str (ascii ''/identify-language'')),
                          (''health'', Str (ascii ''/health'')),
                          (''docs'', Str (ascii ''/docs''))])]), s)
   \<and> fst (root s) = fst (root s')
   \<and> fst (root (snd (root s))) = fst (root s)
   \<and> http_status (fst (root s)) = Some 200"
  by (simp add: root_def http_status_def)

subsection \<open>\<open>load_model\<close> and \<open>lifespan\<close>\<close>

lemma load_model_not_found:
  assumes "filesystem env (MODEL_PATH env) = None"
  shows "fst (load_model env s) =
           Inl (new_exception RuntimeError
                  (ascii ''Impossibile caricare il modello: ''
                   @ ascii ''File del modello non trovato in: '' @ MODEL_PATH env))"
  using assms by (simp add: load_model_def load_model_body_def Let_def)

lemma load_model_unpickle_fails:
  assumes "filesystem env (MODEL_PATH env) = Some (RegularFile model_file)"
    and "pickle_load env model_file = Inl e"
    and "isinstance e Exception"
  shows "fst (load_model env s) =
           Inl (new_exception RuntimeError (ascii ''Impossibile caricare il modello: '' @ exc_str e))"
  using assms by (simp add: load_model_def load_model_body_def Let_def)

lemma load_model_loads:
  assumes "filesystem env (MODEL_PATH env) = Some (RegularFile model_file)"
    and "pickle_load env model_file = Inr clf"
  shows "fst (load_model env s) = Inr clf"
  using assms by (simp add: load_model_def load_model_body_def Let_def)

lemma load_model_keeps_model: "model (snd (load_model env s)) = model s"
  by (auto simp: load_model_def load_model_body_def Let_def
      split: option.splits fs_entry.splits sum.splits)

lemma lifespan_fails:
  assumes "fst (load_model env s) = Inl e"
  shows "fst (lifespan env s) = Inl e \<and> model (snd (lifespan env s)) = model s"
  using assms load_model_keeps_model[of env s]
  by (auto simp: lifespan_def split: prod.splits sum.splits)

lemma lifespan_ready:
  assumes "fst (load_model env s) = Inr clf"
  shows "fst (lifespan env s) = Inr () \<and> model (snd (lifespan env s)) = Some clf"
  using assms by (auto simp: lifespan_def split: prod.splits sum.splits)

text \<open>
  Claim C8. What the code does when the model file is missing and when it does not
  unpickle: the \<open>FileNotFoundError\<close> of line 43 is raised inside the \<open>try\<close>, so
  \<open>except Exception\<close> (line 49) catches it and raises a \<open>RuntimeError\<close> in its place,
  the class that a failed \<open>pickle.load\<close> ends in as well. Both leave \<open>lifespan\<close>
  through \<open>load_model\<close> with \<open>model\<close> still \<open>None\<close>.
\<close>

theorem load_model_missing_file_is_runtime_error:
  "fst (load_model missing_env initial_state) =
     Inl (new_exception RuntimeError
            (ascii ''Impossibile caricare il modello: ''
             @ ascii ''File del modello non trovato in: ''
             @ ascii ''models/language_detection_pipeline.pkl''))
   \<and> fst (load_model corrupt_env initial_state) =
     Inl (new_exception RuntimeError (ascii ''Impossibile caricare il modello: '' @ ascii ''invalid load key''))
   \<and> fst (lifespan missing_env initial_state) =
     Inl (new_exception RuntimeError
            (ascii ''Impossibile caricare il modello: ''
             @ ascii ''File del modello non trovato in: ''
             @ ascii ''models/language_detection_pipeline.pkl''))
   \<and> model (snd (lifespan missing_env initial_state)) = None
   \<and> model (snd (lifespan corrupt_env initial_state)) = None"
proof -
  have a: "filesystem missing_env (MODEL_PATH missing_env) = None"
    by (simp add: missing_env_def)
  have b: "filesystem corrupt_env (MODEL_PATH corrupt_env) = Some (RegularFile [0])"
    by (simp add: corrupt_env_def)
  have c: "pickle_load corrupt_env [0] = Inl (new_exception (UserClass ''UnpicklingError'') (ascii ''invalid load key''))"
    by (simp add: corrupt_env_def)
  have d: "isinstance (new_exception (UserClass ''UnpicklingError'') (ascii ''invalid load key'')) Exception"
    by simp
  have p: "MODEL_PATH missing_env = ascii ''models/language_detection_pipeline.pkl''"
    by (simp add: missing_env_def)
  have i: "model initial_state = None" by (simp add: initial_state_def)
  note m = load_model_not_found [OF a, of initial_state, unfolded p]
  note k = load_model_unpickle_fails [OF b c d, of initial_state]
  show ?thesis
    using m k lifespan_fails [OF m] lifespan_fails [OF k] i by simp
qed

end
